theory Spec2Isabelle
  imports Complex_Main "HOL-Library.Word" "HOL-Library.Sublist"
begin

section \<open>The record store of the WhatsApp link generator (src/app/page.tsx)\<close>

text \<open>
  The page component keeps two pieces of React state, \<open>inputNumbers\<close> and \<open>records\<close>,
  and mirrors \<open>records\<close> into \<open>localStorage\<close> under one key. Two handlers change
  them: the effect that runs once on mount (load and expire) and \<open>handleConvert\<close>
  (sanitise the submitted lines, prepend the new records). Both are embedded here as
  functions from the state before to the state after.

  The clock, the random source and the JSON codec of the host runtime are arguments of
  the model:
  \<^item> \<open>Date.now()\<close> is the argument \<open>currentTime\<close>;
  \<^item> \<open>Math.random()\<close> is the argument \<open>random\<close>, whose value at \<open>i\<close> is the draw of
    the \<open>i\<close>-th call made by one run of \<open>handleConvert\<close>;
  \<^item> \<open>JSON.parse\<close> and \<open>JSON.stringify\<close> are the arguments \<open>parse\<close> and \<open>stringify\<close>.
\<close>

subsection \<open>Strings and numbers of the runtime\<close>

text \<open>
  A JavaScript string is a sequence of UTF-16 code units; \<open>trim\<close>, \<open>split\<close> and a
  regular expression without the \<open>u\<close> flag all work on code units. A JavaScript
  number is modelled as a rational with exact arithmetic: the rounding of IEEE doubles
  and the values NaN and Infinity are not part of the model.
\<close>

type_synonym code_unit = "16 word"
type_synonym jsstring = "code_unit list"
type_synonym number = rat

text \<open>An ASCII literal of the source, as code units.\<close>

definition js :: "string \<Rightarrow> jsstring" where
  "js s = map (\<lambda>c. word_of_nat (of_char c)) s"

definition LF :: code_unit where
  "LF = 0x0A"

subsection \<open>Data model\<close>

text \<open>
  \<^verbatim>\<open>interface WhatsAppRecord { id: number; original: string; link: string; timestamp: number; }\<close>
  The field \<open>id\<close> is named \<open>id_rec\<close>, since \<open>id\<close> is the identity function of HOL.
\<close>

record WhatsAppRecord =
  id_rec :: number
  original :: jsstring
  link :: jsstring
  timestamp :: number

definition LOCAL_STORAGE_KEY :: jsstring where
  "LOCAL_STORAGE_KEY = js ''whatsAppLinkHistory''"

definition EXPIRATION_TIME_MS :: number where
  "EXPIRATION_TIME_MS = 24 * 60 * 60 * 1000"

text \<open>
  The state the handlers read and write: the two \<open>useState\<close> cells and the browser's
  \<open>localStorage\<close>, a map from keys to string values. \<open>setItem\<close> is taken to succeed
  (no quota error), as the source takes it.
\<close>

record state =
  inputNumbers :: jsstring
  records :: "WhatsAppRecord list"
  localStorage :: "jsstring \<rightharpoonup> jsstring"

text \<open>The component as first rendered: \<open>useState('')\<close>, \<open>useState([])\<close>.\<close>

definition HomePage :: "(jsstring \<rightharpoonup> jsstring) \<Rightarrow> state" where
  "HomePage store = \<lparr>inputNumbers = [], records = [], localStorage = store\<rparr>"

subsection \<open>String operations of the runtime that the handlers call\<close>

text \<open>
  \<open>String.prototype.trim\<close> removes, at both ends, the code units of the ECMAScript
  productions WhiteSpace and LineTerminator.
\<close>

definition isWhiteSpace :: "code_unit \<Rightarrow> bool" where
  "isWhiteSpace c =
     (c \<in> {0x09, 0x0A, 0x0B, 0x0C, 0x0D, 0x20, 0xA0, 0x1680, 0x2028, 0x2029,
            0x202F, 0x205F, 0x3000, 0xFEFF}
      \<or> (0x2000 \<le> c \<and> c \<le> 0x200A))"

definition trim :: "jsstring \<Rightarrow> jsstring" where
  "trim s = rev (dropWhile isWhiteSpace (rev (dropWhile isWhiteSpace s)))"

text \<open>
  \<open>s.split('\n')\<close>: the pieces between the line feeds, an empty piece where two line
  feeds meet or the string starts or ends with one; never an empty array.
\<close>

fun split_LF :: "jsstring \<Rightarrow> jsstring list" where
  "split_LF [] = [[]]"
| "split_LF (c # cs) =
     (if c = LF then [] # split_LF cs
      else (case split_LF cs of
              [] \<Rightarrow> [[c]]
            | l # ls \<Rightarrow> (c # l) # ls))"

text \<open>
  \<open>originalNumber.replace(/[^\d+]/g, '')\<close>: the class \<open>[^\d+]\<close> matches a code unit
  that is neither an ASCII digit nor \<open>+\<close>; the flag \<open>g\<close> makes \<open>replace\<close> delete every
  match.
\<close>

definition isDigit :: "code_unit \<Rightarrow> bool" where
  "isDigit c = (0x30 \<le> c \<and> c \<le> 0x39)"

definition matchesClass :: "code_unit \<Rightarrow> bool" where
  "matchesClass c = (\<not> (isDigit c \<or> c = 0x2B))"

definition sanitizedNumber :: "jsstring \<Rightarrow> jsstring" where
  "sanitizedNumber originalNumber = filter (\<lambda>c. \<not> matchesClass c) originalNumber"

subsection \<open>The effect run once on mount: load and expire\<close>

text \<open>
  \<open>parse s = None\<close> stands for \<open>JSON.parse\<close> throwing; \<open>Some rs\<close> for its returning
  the array of records that the annotation \<open>WhatsAppRecord[]\<close> declares (the source
  asserts this type without a check; a text that parses to anything else is outside the
  typed model). The body of the \<open>try\<close> is skipped when \<open>getItem\<close> returns \<open>null\<close> or
  the empty string (both falsy); the \<open>catch\<close> removes the key. \<open>setRecords\<close> comes
  before \<open>setItem\<close> in the source; with a \<open>setItem\<close> that succeeds the order does not
  show in the state after the effect.
\<close>

definition useEffect_load ::
  "(jsstring \<Rightarrow> WhatsAppRecord list option) \<Rightarrow> (WhatsAppRecord list \<Rightarrow> jsstring) \<Rightarrow>
   number \<Rightarrow> state \<Rightarrow> state" where
  "useEffect_load parse stringify currentTime st =
     (case localStorage st LOCAL_STORAGE_KEY of
        None \<Rightarrow> st
      | Some storedData \<Rightarrow>
          if storedData = [] then st
          else (case parse storedData of
                  None \<Rightarrow> st\<lparr>localStorage := (localStorage st)(LOCAL_STORAGE_KEY := None)\<rparr>
                | Some parsedRecords \<Rightarrow>
                    let validRecords =
                          filter (\<lambda>record. currentTime - timestamp record < EXPIRATION_TIME_MS)
                            parsedRecords
                    in st\<lparr>records := validRecords,
                          localStorage :=
                            (localStorage st)(LOCAL_STORAGE_KEY \<mapsto> stringify validRecords)\<rparr>))"

subsection \<open>handleConvert\<close>

definition link_prefix :: jsstring where
  "link_prefix = js ''https://wa.me/''"

definition newRecords :: "number \<Rightarrow> (nat \<Rightarrow> number) \<Rightarrow> jsstring \<Rightarrow> WhatsAppRecord list" where
  "newRecords currentTime random input =
     map (\<lambda>(i, originalNumber).
            \<lparr>id_rec = currentTime + random i,
             original = originalNumber,
             link = link_prefix @ sanitizedNumber originalNumber,
             timestamp = currentTime\<rparr>)
       (enumerate 0 (filter (\<lambda>line. length line > 0) (map trim (split_LF input))))"

definition handleConvert ::
  "(WhatsAppRecord list \<Rightarrow> jsstring) \<Rightarrow> number \<Rightarrow> (nat \<Rightarrow> number) \<Rightarrow> state \<Rightarrow> state" where
  "handleConvert stringify currentTime random st =
     (if trim (inputNumbers st) = [] then st
      else
        let updatedRecords = newRecords currentTime random (inputNumbers st) @ records st
        in st\<lparr>records := updatedRecords,
              localStorage := (localStorage st)(LOCAL_STORAGE_KEY \<mapsto> stringify updatedRecords),
              inputNumbers := []\<rparr>)"

subsection \<open>What the spec calls the store-level invariant\<close>


section \<open>Basic facts\<close>

lemma EXPIRATION_TIME_MS_value: "EXPIRATION_TIME_MS = 86400000"
  by (simp add: EXPIRATION_TIME_MS_def)

lemma isWhiteSpace_LF: "isWhiteSpace LF"
  by (simp add: isWhiteSpace_def LF_def)

lemma dropWhile_all_dropped: "(\<forall>x\<in>set (dropWhile P xs). P x) \<longleftrightarrow> (\<forall>x\<in>set xs. P x)"
proof (induction xs)
  case Nil
  show ?case by simp
next
  case (Cons x xs)
  show ?case
  proof (cases "P x")
    case True
    with Cons show ?thesis by simp
  next
    case False
    then show ?thesis by auto
  qed
qed

lemma trim_empty_iff: "trim s = [] \<longleftrightarrow> (\<forall>c\<in>set s. isWhiteSpace c)"
proof -
  have "trim s = [] \<longleftrightarrow> (\<forall>c\<in>set (dropWhile isWhiteSpace s). isWhiteSpace c)"
    by (simp add: trim_def dropWhile_eq_Nil_conv)
  then show ?thesis
    by (simp only: dropWhile_all_dropped)
qed

lemma split_LF_nonempty: "split_LF s \<noteq> []"
  by (induction s) (auto split: list.splits)

lemma split_LF_units: "\<Union> (set ` set (split_LF s)) = set s - {LF}"
proof (induction s)
  case Nil
  show ?case by simp
next
  case (Cons c cs)
  show ?case
  proof (cases "c = LF")
    case True
    with Cons show ?thesis by auto
  next
    case False
    obtain l ls where sp: "split_LF cs = l # ls"
      using split_LF_nonempty [of cs] by (cases "split_LF cs") auto
    with False Cons show ?thesis by auto
  qed
qed

text \<open>
  The guard of \<open>handleConvert\<close> tests the whole input; the records come from its lines.
  The two agree: the input trims to nothing exactly when every line does.
\<close>

lemma trim_text_empty_iff_lines:
  "trim input = [] \<longleftrightarrow> (\<forall>line\<in>set (split_LF input). trim line = [])"
proof -
  have "(\<forall>line\<in>set (split_LF input). \<forall>c\<in>set line. isWhiteSpace c)
          \<longleftrightarrow> (\<forall>c\<in>\<Union> (set ` set (split_LF input)). isWhiteSpace c)"
    by blast
  also have "\<dots> \<longleftrightarrow> (\<forall>c\<in>set input - {LF}. isWhiteSpace c)"
    by (simp only: split_LF_units)
  also have "\<dots> \<longleftrightarrow> (\<forall>c\<in>set input. isWhiteSpace c)"
    using isWhiteSpace_LF by blast
  finally show ?thesis
    by (simp add: trim_empty_iff)
qed

lemma length_newRecords:
  "length (newRecords currentTime random input)
     = length (filter (\<lambda>line. line \<noteq> []) (map trim (split_LF input)))"
  by (simp add: newRecords_def)

lemma newRecords_nth:
  assumes "i < length (filter (\<lambda>line. line \<noteq> []) (map trim (split_LF input)))"
  shows "newRecords currentTime random input ! i =
           \<lparr>id_rec = currentTime + random i,
            original = filter (\<lambda>line. line \<noteq> []) (map trim (split_LF input)) ! i,
            link = link_prefix
                     @ sanitizedNumber (filter (\<lambda>line. line \<noteq> []) (map trim (split_LF input)) ! i),
            timestamp = currentTime\<rparr>"
  using assms by (simp add: newRecords_def nth_enumerate_eq)

lemma newRecords_empty_iff: "newRecords currentTime random input = [] \<longleftrightarrow> trim input = []"
proof -
  have "newRecords currentTime random input = []
          \<longleftrightarrow> length (newRecords currentTime random input) = 0"
    by simp
  also have "\<dots> \<longleftrightarrow> filter (\<lambda>line. line \<noteq> []) (map trim (split_LF input)) = []"
    by (simp only: length_newRecords length_0_conv)
  also have "\<dots> \<longleftrightarrow> (\<forall>line\<in>set (split_LF input). trim line = [])"
    by (simp add: filter_empty_conv)
  also have "\<dots> \<longleftrightarrow> trim input = []"
    by (rule trim_text_empty_iff_lines [symmetric])
  finally show ?thesis .
qed

text \<open>
  What the \<open>replace\<close> keeps: the digits and every \<open>+\<close> of the line, in their order.
\<close>

lemma sanitizedNumber_keeps:
  "subseq (sanitizedNumber s) s
   \<and> list_all (\<lambda>c. isDigit c \<or> c = 0x2B) (sanitizedNumber s)"
  by (simp add: sanitizedNumber_def matchesClass_def list_all_iff)

lemma sanitizedNumber_keeps_every_plus:
  "filter (\<lambda>c. c = 0x2B) (sanitizedNumber s) = filter (\<lambda>c. c = 0x2B) s"
  by (induction s) (simp_all add: sanitizedNumber_def matchesClass_def)

lemma map_original_newRecords:
  "map original (newRecords currentTime random input)
     = filter (\<lambda>line. line \<noteq> []) (map trim (split_LF input))"
proof -
  have "map original (newRecords currentTime random input)
          = map snd (enumerate 0 (filter (\<lambda>line. line \<noteq> []) (map trim (split_LF input))))"
    by (simp add: newRecords_def case_prod_unfold comp_def)
  then show ?thesis
    by (simp only: map_snd_enumerate)
qed

lemma timestamp_newRecords:
  "list_all (\<lambda>r. timestamp r = currentTime) (newRecords currentTime random input)"
  by (simp add: newRecords_def list_all_iff case_prod_unfold)

text \<open>
  The ids of one batch are the submission time plus the successive draws of
  \<open>Math.random()\<close>: they are pairwise different exactly when the draws are.
\<close>

lemma map_id_rec_newRecords:
  "map id_rec (newRecords currentTime random input)
     = map (\<lambda>i. currentTime + random i) [0..<length (newRecords currentTime random input)]"
proof -
  define ls where "ls = filter (\<lambda>line. line \<noteq> []) (map trim (split_LF input))"
  have new: "newRecords currentTime random input =
      map (\<lambda>(i, originalNumber).
            \<lparr>id_rec = currentTime + random i,
             original = originalNumber,
             link = link_prefix @ sanitizedNumber originalNumber,
             timestamp = currentTime\<rparr>) (enumerate 0 ls)"
    unfolding ls_def newRecords_def by simp
  have "map id_rec (newRecords currentTime random input)
          = map ((\<lambda>i. currentTime + random i) \<circ> fst) (enumerate 0 ls)"
    unfolding new by (simp add: case_prod_unfold comp_def)
  also have "\<dots> = map (\<lambda>i. currentTime + random i) (map fst (enumerate 0 ls))"
    by (simp only: map_map)
  also have "\<dots> = map (\<lambda>i. currentTime + random i) [0..<length ls]"
    by (simp add: map_fst_enumerate)
  also have "length ls = length (newRecords currentTime random input)"
    unfolding new by simp
  finally show ?thesis .
qed

lemma ids_distinct_iff_draws_distinct:
  "distinct (map id_rec (newRecords currentTime random input))
     \<longleftrightarrow> inj_on random {..<length (newRecords currentTime random input)}"
proof -
  have "distinct (map id_rec (newRecords currentTime random input))
          \<longleftrightarrow> inj_on (\<lambda>i. currentTime + random i) {..<length (newRecords currentTime random input)}"
    by (simp only: map_id_rec_newRecords [of currentTime random input] distinct_map distinct_upt
        atLeast_upt [symmetric] simp_thms length_map length_upt diff_zero)
  also have "\<dots> \<longleftrightarrow> inj_on random {..<length (newRecords currentTime random input)}"
    by (simp add: inj_on_def)
  finally show ?thesis .
qed

text \<open>Past its guard, \<open>handleConvert\<close> writes all three parts of the state.\<close>

lemma handleConvert_nonblank:
  assumes "trim (inputNumbers st) \<noteq> []"
  shows "handleConvert stringify currentTime random st =
           st\<lparr>records := newRecords currentTime random (inputNumbers st) @ records st,
              localStorage := (localStorage st)(LOCAL_STORAGE_KEY \<mapsto>
                 stringify (newRecords currentTime random (inputNumbers st) @ records st)),
              inputNumbers := []\<rparr>"
  using assms by (simp add: handleConvert_def Let_def)




section \<open>The load effect\<close>

text \<open>
  Claim C1. A stored value that parses to an array of records is loaded with exactly
  the records of age \<open>currentTime - timestamp \<ge> 86400000\<close> removed: the collection in
  memory is the stored one filtered by age, so it is a subsequence of it (the kept
  records keep their order), every record in it is younger than 24 hours, and the
  filtered collection is what is written back to storage. The stored string is not
  empty: the empty string is no JSON text, and the effect does not parse it.
\<close>

theorem load_expires_exactly:
  fixes parse stringify currentTime store
  defines "st' \<equiv> useEffect_load parse stringify currentTime (HomePage store)"
  assumes stored: "store LOCAL_STORAGE_KEY = Some storedData"
    and nonempty: "storedData \<noteq> []"
    and valid: "parse storedData = Some parsedRecords"
  shows "records st' = filter (\<lambda>r. \<not> 86400000 \<le> currentTime - timestamp r) parsedRecords
       \<and> subseq (records st') parsedRecords
       \<and> (\<forall>r\<in>set (records st'). currentTime - timestamp r < 86400000)
       \<and> localStorage st' LOCAL_STORAGE_KEY = Some (stringify (records st'))"
proof -
  have recs: "records st' = filter (\<lambda>r. \<not> 86400000 \<le> currentTime - timestamp r) parsedRecords"
    using stored nonempty valid
    by (simp add: st'_def useEffect_load_def HomePage_def EXPIRATION_TIME_MS_value not_le Let_def)
  have sto: "localStorage st' LOCAL_STORAGE_KEY = Some (stringify (records st'))"
    using stored nonempty valid
    by (simp add: st'_def useEffect_load_def HomePage_def Let_def)
  have sub: "subseq (records st') parsedRecords"
    by (simp only: recs subseq_filter_left)
  have young: "\<forall>r\<in>set (records st'). currentTime - timestamp r < 86400000"
    by (simp add: recs not_le)
  from recs sub young sto show ?thesis by blast
qed

text \<open>
  The scenario of the spec: at time \<open>100000000\<close> a record stamped \<open>now - 90000000\<close> is
  gone after the load and one stamped \<open>now - 1000\<close> is kept.
\<close>

theorem load_expires_exactly_witness:
  "(let parse = (\<lambda>s. if s = js ''[old,fresh]''
                       then Some [\<lparr>id_rec = 1, original = js ''1'', link = js ''https://wa.me/1'',
                                   timestamp = 10000000\<rparr>,
                                  \<lparr>id_rec = 2, original = js ''2'', link = js ''https://wa.me/2'',
                                   timestamp = 99999000\<rparr>]
                       else None);
        st' = useEffect_load parse (\<lambda>rs. js ''[fresh]'') 100000000
                (HomePage [LOCAL_STORAGE_KEY \<mapsto> js ''[old,fresh]''])
    in records st' = [\<lparr>id_rec = 2, original = js ''2'', link = js ''https://wa.me/2'',
                        timestamp = 99999000\<rparr>]
       \<and> localStorage st' LOCAL_STORAGE_KEY = Some (js ''[fresh]''))"
  using load_expires_exactly [of "[LOCAL_STORAGE_KEY \<mapsto> js ''[old,fresh]'']" "js ''[old,fresh]''"
      "(\<lambda>s. if s = js ''[old,fresh]''
                       then Some [\<lparr>id_rec = 1, original = js ''1'', link = js ''https://wa.me/1'',
                                   timestamp = 10000000\<rparr>,
                                  \<lparr>id_rec = 2, original = js ''2'', link = js ''https://wa.me/2'',
                                   timestamp = 99999000\<rparr>]
                       else None)" _ "\<lambda>rs. js ''[fresh]''" 100000000]
  by (simp add: js_def)

text \<open>
  Claim C2, as the code has it. A stored value on which \<open>JSON.parse\<close> throws leaves
  the collection in memory empty. If the value is not the empty string, the \<open>catch\<close>
  removes the key with \<open>removeItem\<close>: afterwards storage holds no value under the key.
  The empty string is falsy, so the guard \<open>if (storedData)\<close> treats it as no data: it is
  never parsed and stays in storage. Nothing else of the state changes and the effect
  returns normally.
\<close>

theorem load_malformed_removes_key:
  assumes stored: "store LOCAL_STORAGE_KEY = Some storedData"
    and malformed: "parse storedData = None"
  shows "useEffect_load parse stringify currentTime (HomePage store)
           = \<lparr>inputNumbers = [], records = [],
              localStorage = (if storedData = [] then store else store(LOCAL_STORAGE_KEY := None))\<rparr>"
  using assms by (simp add: useEffect_load_def HomePage_def)

theorem load_malformed_removes_key_witness:
  "(let parse = (\<lambda>s. if s = js ''[]'' then Some [] else None);
        kept = [js ''theme'' \<mapsto> js ''dark'']
    in parse (js ''{not json'') = None
       \<and> parse [] = None
       \<and> useEffect_load parse (\<lambda>rs. js ''[]'') 0
             (HomePage (kept(LOCAL_STORAGE_KEY \<mapsto> js ''{not json'')))
           = \<lparr>inputNumbers = [], records = [], localStorage = kept\<rparr>
       \<and> useEffect_load parse (\<lambda>rs. js ''[]'') 0 (HomePage (kept(LOCAL_STORAGE_KEY \<mapsto> [])))
           = \<lparr>inputNumbers = [], records = [], localStorage = kept(LOCAL_STORAGE_KEY \<mapsto> [])\<rparr>)"
  using load_malformed_removes_key [of "[js ''theme'' \<mapsto> js ''dark'', LOCAL_STORAGE_KEY \<mapsto> js ''{not json'']"
      "js ''{not json''" "\<lambda>s. if s = js ''[]'' then Some [] else None" "\<lambda>rs. js ''[]''" 0]
    load_malformed_removes_key [of "[js ''theme'' \<mapsto> js ''dark'', LOCAL_STORAGE_KEY \<mapsto> []]"
      "[]" "\<lambda>s. if s = js ''[]'' then Some [] else None" "\<lambda>rs. js ''[]''" 0]
  by (simp add: js_def LOCAL_STORAGE_KEY_def fun_upd_twist)

text \<open>
  The claim says that storage is overwritten with an empty collection. With the string
  \<open>{not json\<close> stored, the key is absent after the load: it does not hold \<open>[]\<close>, the
  serialisation of the empty collection. With the empty string stored (which is no JSON
  text either) the stored value stays as it was.
\<close>

theorem load_malformed_not_overwritten:
  "localStorage
     (useEffect_load (\<lambda>s. if s = js ''[]'' then Some [] else None) (\<lambda>rs. js ''[]'') 0
        (HomePage [LOCAL_STORAGE_KEY \<mapsto> js ''{not json'']))
     LOCAL_STORAGE_KEY \<noteq> Some (js ''[]'')
   \<and> localStorage
     (useEffect_load (\<lambda>s. if s = js ''[]'' then Some [] else None) (\<lambda>rs. js ''[]'') 0
        (HomePage [LOCAL_STORAGE_KEY \<mapsto> js ''{not json'']))
     LOCAL_STORAGE_KEY = None
   \<and> localStorage
     (useEffect_load (\<lambda>s. if s = js ''[]'' then Some [] else None) (\<lambda>rs. js ''[]'') 0
        (HomePage [LOCAL_STORAGE_KEY \<mapsto> []]))
     LOCAL_STORAGE_KEY = Some []"
  by (simp add: useEffect_load_def HomePage_def js_def)

text \<open>
  Claim C10. With no value under the key, the load effect changes nothing: the state
  after it is the state as first rendered, so the key is still absent (no empty
  collection is written) and the collection in memory is empty.
\<close>

theorem load_absent_key_no_write:
  assumes "store LOCAL_STORAGE_KEY = None"
  shows "useEffect_load parse stringify currentTime (HomePage store) = HomePage store
       \<and> localStorage (useEffect_load parse stringify currentTime (HomePage store)) LOCAL_STORAGE_KEY = None
       \<and> records (useEffect_load parse stringify currentTime (HomePage store)) = []"
  using assms by (simp add: useEffect_load_def HomePage_def)

theorem load_absent_key_no_write_witness:
  "Map.empty LOCAL_STORAGE_KEY = (None :: jsstring option)
   \<and> useEffect_load (\<lambda>s. Some []) (\<lambda>rs. js ''[]'') 0 (HomePage Map.empty) = HomePage Map.empty
   \<and> localStorage (useEffect_load (\<lambda>s. Some []) (\<lambda>rs. js ''[]'') 0 (HomePage Map.empty))
        LOCAL_STORAGE_KEY = None
   \<and> records (useEffect_load (\<lambda>s. Some []) (\<lambda>rs. js ''[]'') 0 (HomePage Map.empty)) = []"
  using load_absent_key_no_write [of Map.empty "\<lambda>s. Some []" "\<lambda>rs. js ''[]''" 0]
  by (simp add: useEffect_load_def HomePage_def)

section \<open>Submitting numbers\<close>

text \<open>
  Claim C3 says that only a leading \<open>+\<close> survives sanitisation, as the comment above
  the regular expression does. The class \<open>[^\d+]\<close> spares every \<open>+\<close>: the line \<open>12+34\<close>
  is left as it is, and its link is \<open>https://wa.me/12+34\<close>.
\<close>

theorem sanitize_keeps_inner_plus:
  "sanitizedNumber (js ''12+34'') = js ''12+34''
   \<and> map link (newRecords 0 (\<lambda>i. 0) (js ''12+34'')) = [js ''https://wa.me/12+34'']"
  by (simp add: newRecords_def sanitizedNumber_def matchesClass_def isDigit_def js_def
      trim_def isWhiteSpace_def LF_def link_prefix_def enumerate_eq_zip)

text \<open>
  Claim C9. Sanitising is idempotent: what one pass of the \<open>replace\<close> leaves has no
  code unit that a second pass would delete.
\<close>

theorem sanitizedNumber_idempotent:
  "sanitizedNumber (sanitizedNumber s) = sanitizedNumber s"
  by (simp add: sanitizedNumber_def)

text \<open>
  Claim C4. When the submitted text has a line that does not trim to nothing,
  \<open>handleConvert\<close> adds one record per such line and no other: the collection grows by
  the number of non-blank trimmed lines, the new records carry these lines as
  \<open>original\<close> in the order of the text, each link is the prefix followed by the
  sanitised line (the bare prefix when the line sanitises to nothing), and the records
  that were there before follow unchanged.
\<close>

theorem submit_one_record_per_line:
  fixes st :: state and stringify currentTime random
  defines "originals \<equiv> filter (\<lambda>line. line \<noteq> []) (map trim (split_LF (inputNumbers st)))"
    and "st' \<equiv> handleConvert stringify currentTime random st"
  assumes some_line: "\<exists>line\<in>set (split_LF (inputNumbers st)). trim line \<noteq> []"
  shows "length (records st') = length originals + length (records st)
       \<and> map original (take (length originals) (records st')) = originals
       \<and> (\<forall>i<length originals.
             link (records st' ! i) = link_prefix @ sanitizedNumber (originals ! i))
       \<and> (\<forall>i<length originals.
             sanitizedNumber (originals ! i) = [] \<longrightarrow> link (records st' ! i) = link_prefix)
       \<and> drop (length originals) (records st') = records st"
proof -
  let ?new = "newRecords currentTime random (inputNumbers st)"
  from some_line have "trim (inputNumbers st) \<noteq> []"
    using trim_text_empty_iff_lines [of "inputNumbers st"] by blast
  then have recs: "records st' = ?new @ records st"
    by (simp add: st'_def handleConvert_nonblank)
  have len: "length ?new = length originals"
    by (simp only: originals_def length_newRecords)
  have count: "length (records st') = length originals + length (records st)"
    by (simp add: recs len)
  have origs: "map original (take (length originals) (records st')) = originals"
    using len by (simp add: recs originals_def map_original_newRecords)
  have links: "link (records st' ! i) = link_prefix @ sanitizedNumber (originals ! i)"
    if "i < length originals" for i
  proof -
    from that len have "records st' ! i = ?new ! i"
      by (simp add: recs nth_append)
    also from that have "link \<dots> = link_prefix @ sanitizedNumber (originals ! i)"
      unfolding originals_def by (simp add: newRecords_nth)
    finally show ?thesis .
  qed
  have rest: "drop (length originals) (records st') = records st"
    using len by (simp add: recs)
  from count origs links rest show ?thesis by simp
qed

text \<open>
  The scenario of the spec with a fourth line, \<open>abc\<close>, that sanitises to the empty
  string: four lines, one of them blank, give three records.
\<close>

theorem submit_one_record_per_line_witness:
  "(let st = \<lparr>inputNumbers = js ''+1 (415) 555-2671'' @ [LF, LF] @ js ''  6281234567890  ''
                                 @ [LF] @ js ''abc'',
                  records = [], localStorage = Map.empty\<rparr>;
        st' = handleConvert (\<lambda>rs. concat (map original rs)) 5 (\<lambda>i. 0) st
    in (\<exists>line\<in>set (split_LF (inputNumbers st)). trim line \<noteq> [])
       \<and> length (split_LF (inputNumbers st)) = 4
       \<and> length (records st') = 3
       \<and> map original (records st') = [js ''+1 (415) 555-2671'', js ''6281234567890'', js ''abc'']
       \<and> map link (records st') = [js ''https://wa.me/+14155552671'',
                                     js ''https://wa.me/6281234567890'', js ''https://wa.me/''])"
  using submit_one_record_per_line [of
      "\<lparr>inputNumbers = js ''+1 (415) 555-2671'' @ [LF, LF] @ js ''  6281234567890  ''
                                 @ [LF] @ js ''abc'',
        records = [], localStorage = Map.empty\<rparr>"
      "\<lambda>rs. concat (map original rs)" 5 "\<lambda>i. 0"]
  by (simp add: handleConvert_def newRecords_def js_def LF_def trim_def isWhiteSpace_def
      sanitizedNumber_def matchesClass_def isDigit_def link_prefix_def enumerate_eq_zip Let_def)

text \<open>
  Claim C5. A submission that does not trim to nothing puts the new records in front
  of the existing ones, which keep their order; there is at least one new record and
  all of them carry the time of the submission; the combined collection is the new
  state in memory and its serialisation is stored under the key, the other keys
  untouched; the input field is cleared.
\<close>

theorem submit_prepends_and_persists:
  fixes st :: state and stringify currentTime random
  defines "new \<equiv> newRecords currentTime random (inputNumbers st)"
    and "st' \<equiv> handleConvert stringify currentTime random st"
  assumes nonblank: "trim (inputNumbers st) \<noteq> []"
  shows "records st' = new @ records st
       \<and> new \<noteq> []
       \<and> list_all (\<lambda>r. timestamp r = currentTime) new
       \<and> localStorage st' = (localStorage st)(LOCAL_STORAGE_KEY \<mapsto> stringify (new @ records st))
       \<and> inputNumbers st' = []"
proof -
  from nonblank have eq: "st' = st\<lparr>records := new @ records st,
        localStorage := (localStorage st)(LOCAL_STORAGE_KEY \<mapsto> stringify (new @ records st)),
        inputNumbers := []\<rparr>"
    by (simp add: st'_def new_def handleConvert_nonblank)
  from nonblank have "new \<noteq> []"
    by (simp add: new_def newRecords_empty_iff)
  moreover have "list_all (\<lambda>r. timestamp r = currentTime) new"
    by (simp only: new_def timestamp_newRecords)
  ultimately show ?thesis
    by (simp add: eq)
qed

theorem submit_prepends_and_persists_witness:
  "(let old = \<lparr>id_rec = 1, original = js ''9'', link = js ''https://wa.me/9'', timestamp = 1\<rparr>;
        st = \<lparr>inputNumbers = js ''1'' @ [LF] @ js ''2'', records = [old],
                localStorage = Map.empty\<rparr>;
        st' = handleConvert (\<lambda>rs. concat (map original rs)) 5 (\<lambda>i. 0) st
    in trim (inputNumbers st) \<noteq> []
       \<and> records st' = [\<lparr>id_rec = 5, original = js ''1'', link = js ''https://wa.me/1'',
                             timestamp = 5\<rparr>,
                          \<lparr>id_rec = 5, original = js ''2'', link = js ''https://wa.me/2'',
                             timestamp = 5\<rparr>, old]
       \<and> localStorage st' LOCAL_STORAGE_KEY = Some (js ''129'')
       \<and> inputNumbers st' = [])"
  using submit_prepends_and_persists [of
      "\<lparr>inputNumbers = js ''1'' @ [LF] @ js ''2'',
        records = [\<lparr>id_rec = 1, original = js ''9'', link = js ''https://wa.me/9'',
                     timestamp = 1\<rparr>],
        localStorage = Map.empty\<rparr>"
      "\<lambda>rs. concat (map original rs)" 5 "\<lambda>i. 0"]
  by (simp add: handleConvert_def newRecords_def js_def LF_def trim_def isWhiteSpace_def
      sanitizedNumber_def matchesClass_def isDigit_def link_prefix_def enumerate_eq_zip Let_def)

text \<open>
  Claim C7. Submitting a text that consists of white space only (the empty text
  included) changes nothing: records, storage and input field are as before, and the
  handler returns normally.
\<close>

theorem blank_submit_noop:
  assumes "list_all isWhiteSpace (inputNumbers st)"
  shows "handleConvert stringify currentTime random st = st"
proof -
  from assms have "trim (inputNumbers st) = []"
    by (simp add: trim_empty_iff list_all_iff)
  then show ?thesis
    by (simp add: handleConvert_def)
qed

theorem blank_submit_noop_witness:
  "list_all isWhiteSpace (js ''   '')
   \<and> handleConvert (\<lambda>rs. js ''[]'') 5 (\<lambda>i. 0)
         \<lparr>inputNumbers = js ''   '', records = [], localStorage = Map.empty\<rparr>
       = \<lparr>inputNumbers = js ''   '', records = [], localStorage = Map.empty\<rparr>"
  using blank_submit_noop [of "\<lparr>inputNumbers = js ''   '', records = [], localStorage = Map.empty\<rparr>"
      "\<lambda>rs. js ''[]''" 5 "\<lambda>i. 0"]
  by (simp add: js_def isWhiteSpace_def)

text \<open>
  Claim C8 asks for ids that differ between any two records. An id is the time of the
  submission plus one draw of \<open>Math.random()\<close>, and all records of a batch share the
  time: two equal draws give two records with the same id. Here a text of two lines is
  submitted at time \<open>1700000000000\<close> and both draws are \<open>0.5\<close>.
\<close>

theorem ids_collide:
  "map id_rec (newRecords 1700000000000 (\<lambda>i. 1 / 2) (js ''1'' @ [LF] @ js ''2''))
     = [3400000000001 / 2, 3400000000001 / 2]
   \<and> \<not> distinct (map id_rec (newRecords 1700000000000 (\<lambda>i. 1 / 2) (js ''1'' @ [LF] @ js ''2'')))"
  by (simp add: newRecords_def js_def trim_def isWhiteSpace_def LF_def enumerate_eq_zip)

section \<open>Storage and memory agree\<close>




end
